theory Spec2Isabelle
  imports Complex_Main
begin

section \<open>JavaScript values read and produced by the pipeline\<close>

text \<open>
  The connector (\<^verbatim>\<open>healthProvider.ts\<close>) reads vendor records typed \<^verbatim>\<open>any\<close>, so the
  model needs the JavaScript notions the code relies on: \<^verbatim>\<open>undefined\<close> and \<^verbatim>\<open>null\<close>,
  truthiness, \<^verbatim>\<open>??\<close>, \<^verbatim>\<open>?.\<close>, \<^verbatim>\<open>Number(..)\<close>, \<^verbatim>\<open>NaN\<close>, \<^verbatim>\<open>Date\<close>.

  Numbers are IEEE doubles in the source. The model keeps \<^verbatim>\<open>NaN\<close> and the two infinities
  and takes every other number as an exact rational: rounding, overflow and the sign of
  zero are not modelled.
\<close>

datatype jsnum = Fin rat | PosInf | NegInf | NaN

datatype jsval =
    JUndefined
  | JNull
  | JBool bool
  | JNum jsnum
  | JStr string
  | JArr "jsval list"
  | JObj "(string \<times> jsval) list"

text \<open>A vendor record is an object: its fields by name.\<close>

type_synonym vrecord = "(string \<times> jsval) list"

text \<open>\<^verbatim>\<open>x == null\<close>, the test behind \<^verbatim>\<open>??\<close>, \<^verbatim>\<open>?.\<close> and \<^verbatim>\<open>x != null\<close>.\<close>

fun nullish :: "jsval \<Rightarrow> bool" where
  "nullish JUndefined = True"
| "nullish JNull = True"
| "nullish _ = False"

text \<open>ToBoolean, the test of \<^verbatim>\<open>c ? a : b\<close> and \<^verbatim>\<open>if (c)\<close>.\<close>

fun truthy :: "jsval \<Rightarrow> bool" where
  "truthy JUndefined = False"
| "truthy JNull = False"
| "truthy (JBool b) = b"
| "truthy (JNum n) = (n \<noteq> Fin 0 \<and> n \<noteq> NaN)"
| "truthy (JStr s) = (s \<noteq> [])"
| "truthy (JArr _) = True"
| "truthy (JObj _) = True"

text \<open>\<^verbatim>\<open>r.k\<close> on a vendor record \<open>r\<close>: a missing field reads as \<^verbatim>\<open>undefined\<close>.\<close>

definition field :: "vrecord \<Rightarrow> string \<Rightarrow> jsval" where
  "field r k = (case map_of r k of None \<Rightarrow> JUndefined | Some v \<Rightarrow> v)"

text \<open>
  \<^verbatim>\<open>v?.k\<close> for the property names the connector reads (none of them is a built-in
  property of a string, an array, a number or a boolean): \<^verbatim>\<open>undefined\<close> unless \<open>v\<close> is
  an object that has the field.
\<close>

fun opt_get :: "jsval \<Rightarrow> string \<Rightarrow> jsval" where
  "opt_get (JObj r) k = field r k"
| "opt_get _ k = JUndefined"

text \<open>\<^verbatim>\<open>v?.[0]\<close>.\<close>

fun opt_index0 :: "jsval \<Rightarrow> jsval" where
  "opt_index0 (JArr []) = JUndefined"
| "opt_index0 (JArr (x # _)) = x"
| "opt_index0 (JStr []) = JUndefined"
| "opt_index0 (JStr (c # _)) = JStr [c]"
| "opt_index0 (JObj r) = field r ''0''"
| "opt_index0 _ = JUndefined"

text \<open>
  The parts of the engine that are not modelled are parameters: the date parser
  (\<^verbatim>\<open>new Date(v)\<close> for a string or an object \<open>v\<close>) and the numeric reading of strings
  and objects (\<^verbatim>\<open>Number(v)\<close> for such a \<open>v\<close>).
\<close>

record engine =
  parseDate :: "jsval \<Rightarrow> int option"
  stringToNumber :: "jsval \<Rightarrow> jsnum"

text \<open>\<^verbatim>\<open>Number(v)\<close>, also the conversion \<^verbatim>\<open>*\<close> applies to its operands.\<close>

fun toNumber :: "engine \<Rightarrow> jsval \<Rightarrow> jsnum" where
  "toNumber js JUndefined = NaN"
| "toNumber js JNull = Fin 0"
| "toNumber js (JBool b) = Fin (if b then 1 else 0)"
| "toNumber js (JNum n) = n"
| "toNumber js v = stringToNumber js v"

subsection \<open>Arithmetic on numbers\<close>

fun jmul :: "jsnum \<Rightarrow> jsnum \<Rightarrow> jsnum" where
  "jmul NaN _ = NaN"
| "jmul _ NaN = NaN"
| "jmul (Fin a) (Fin b) = Fin (a * b)"
| "jmul (Fin a) PosInf = (if a = 0 then NaN else if 0 < a then PosInf else NegInf)"
| "jmul (Fin a) NegInf = (if a = 0 then NaN else if 0 < a then NegInf else PosInf)"
| "jmul PosInf (Fin b) = (if b = 0 then NaN else if 0 < b then PosInf else NegInf)"
| "jmul NegInf (Fin b) = (if b = 0 then NaN else if 0 < b then NegInf else PosInf)"
| "jmul PosInf PosInf = PosInf"
| "jmul PosInf NegInf = NegInf"
| "jmul NegInf PosInf = NegInf"
| "jmul NegInf NegInf = PosInf"

fun jdiv :: "jsnum \<Rightarrow> jsnum \<Rightarrow> jsnum" where
  "jdiv NaN _ = NaN"
| "jdiv _ NaN = NaN"
| "jdiv (Fin a) (Fin b) =
     (if b = 0 then (if a = 0 then NaN else if 0 < a then PosInf else NegInf)
      else Fin (a / b))"
| "jdiv (Fin a) PosInf = Fin 0"
| "jdiv (Fin a) NegInf = Fin 0"
| "jdiv PosInf (Fin b) = (if 0 \<le> b then PosInf else NegInf)"
| "jdiv NegInf (Fin b) = (if 0 \<le> b then NegInf else PosInf)"
| "jdiv PosInf PosInf = NaN"
| "jdiv PosInf NegInf = NaN"
| "jdiv NegInf PosInf = NaN"
| "jdiv NegInf NegInf = NaN"

fun jsub :: "jsnum \<Rightarrow> jsnum \<Rightarrow> jsnum" where
  "jsub NaN _ = NaN"
| "jsub _ NaN = NaN"
| "jsub (Fin a) (Fin b) = Fin (a - b)"
| "jsub (Fin a) PosInf = NegInf"
| "jsub (Fin a) NegInf = PosInf"
| "jsub PosInf (Fin b) = PosInf"
| "jsub NegInf (Fin b) = NegInf"
| "jsub PosInf PosInf = NaN"
| "jsub PosInf NegInf = PosInf"
| "jsub NegInf PosInf = NegInf"
| "jsub NegInf NegInf = NaN"

text \<open>\<^verbatim>\<open>Math.max(a, b)\<close>: \<^verbatim>\<open>NaN\<close> as soon as one argument is.\<close>

fun Math_max :: "jsnum \<Rightarrow> jsnum \<Rightarrow> jsnum" where
  "Math_max NaN _ = NaN"
| "Math_max _ NaN = NaN"
| "Math_max PosInf _ = PosInf"
| "Math_max _ PosInf = PosInf"
| "Math_max NegInf b = b"
| "Math_max a NegInf = a"
| "Math_max (Fin a) (Fin b) = Fin (max a b)"

text \<open>\<^verbatim>\<open>Math.round(x)\<close>: the nearest integer, a half rounds up.\<close>

fun Math_round :: "jsnum \<Rightarrow> jsnum" where
  "Math_round (Fin a) = Fin (of_int \<lfloor>a + 1 / 2\<rfloor>)"
| "Math_round n = n"

subsection \<open>Dates\<close>

text \<open>
  A \<^verbatim>\<open>Date\<close> holds a time value, the milliseconds since the epoch, or is an
  Invalid Date.
\<close>

datatype jsdate = TimeValue int | InvalidDate

fun getTime :: "jsdate \<Rightarrow> jsnum" where
  "getTime (TimeValue t) = Fin (of_int t)"
| "getTime InvalidDate = NaN"

text \<open>TimeClip: a finite number within 8.64e15 ms of the epoch, truncated toward zero.\<close>

fun timeClip :: "jsnum \<Rightarrow> jsdate" where
  "timeClip (Fin a) =
     (if \<bar>a\<bar> \<le> 8640000000000000
      then TimeValue (if 0 \<le> a then \<lfloor>a\<rfloor> else \<lceil>a\<rceil>) else InvalidDate)"
| "timeClip _ = InvalidDate"

text \<open>\<^verbatim>\<open>new Date(v)\<close>.\<close>

fun newDate :: "engine \<Rightarrow> jsval \<Rightarrow> jsdate" where
  "newDate js JUndefined = InvalidDate"
| "newDate js JNull = TimeValue 0"
| "newDate js (JBool b) = TimeValue (if b then 1 else 0)"
| "newDate js (JNum n) = timeClip n"
| "newDate js v = (case parseDate js v of None \<Rightarrow> InvalidDate | Some t \<Rightarrow> TimeValue t)"

text \<open>
  \<^verbatim>\<open>toISOString()\<close> gives \<^verbatim>\<open>YYYY-MM-DDTHH:mm:ss.sssZ\<close> in UTC (a signed six-digit year
  outside 0..9999) and throws a RangeError on an Invalid Date.
\<close>

fun pad :: "nat \<Rightarrow> nat \<Rightarrow> string" where
  "pad 0 n = []"
| "pad (Suc w) n = pad w (n div 10) @ [''0123456789'' ! (n mod 10)]"

definition civil_from_days :: "int \<Rightarrow> int \<times> int \<times> int" where
  "civil_from_days z0 =
     (let z = z0 + 719468;
          era = z div 146097;
          doe = z - era * 146097;
          yoe = (doe - doe div 1460 + doe div 36524 - doe div 146096) div 365;
          doy = doe - (365 * yoe + yoe div 4 - yoe div 100);
          mp = (5 * doy + 2) div 153;
          d = doy - (153 * mp + 2) div 5 + 1;
          m = (if mp < 10 then mp + 3 else mp - 9);
          y = yoe + era * 400 + (if m \<le> 2 then 1 else 0)
      in (y, m, d))"

definition year_string :: "int \<Rightarrow> string" where
  "year_string y =
     (if 0 \<le> y \<and> y \<le> 9999 then pad 4 (nat y)
      else (if y < 0 then ''-'' else ''+'') @ pad 6 (nat \<bar>y\<bar>))"

definition iso8601 :: "int \<Rightarrow> string" where
  "iso8601 t =
     (let ms = t mod 86400000;
          (y, m, d) = civil_from_days (t div 86400000)
      in year_string y @ ''-'' @ pad 2 (nat m) @ ''-'' @ pad 2 (nat d) @ ''T''
         @ pad 2 (nat (ms div 3600000)) @ '':''
         @ pad 2 (nat (ms div 60000 mod 60)) @ '':''
         @ pad 2 (nat (ms div 1000 mod 60)) @ ''.''
         @ pad 3 (nat (ms mod 1000)) @ ''Z'')"

text \<open>What a call can throw: a value, or the RangeError of \<^verbatim>\<open>toISOString\<close>.\<close>

datatype error = RangeError | Thrown jsval

fun toISOString :: "jsdate \<Rightarrow> error + string" where
  "toISOString (TimeValue t) = Inr (iso8601 t)"
| "toISOString InvalidDate = Inl RangeError"


section \<open>The canonical sample model (\<^verbatim>\<open>healthTypes.ts\<close>, \<^verbatim>\<open>api/types.ts\<close>)\<close>

datatype StorageMode = raw | aggregated | local_only

datatype SampleType =
  blood_glucose | heart_rate | blood_pressure | steps | exercise_minutes | ecg

datatype glucose_source = cgm | manual

text \<open>
  The \<^verbatim>\<open>data\<close> object of a sample, one shape per sample type. The fields of an ECG
  are whatever the vendor record holds, \<^verbatim>\<open>undefined\<close> included.
\<close>

datatype sample_data =
    GlucoseData (mg_dl: jsnum) (source: glucose_source)
  | HeartRateData (bpm: jsnum)
  | BloodPressureData (systolic_mmhg: jsnum) (diastolic_mmhg: jsnum)
  | StepsData (spm: jsnum) (interval_minutes: jsnum)
  | ExerciseData (minutes: jsnum)
  | EcgData (average_bpm: jsval) (classification: jsval) (sampling_hz: jsval)
      (voltage_samples: jsval)

record IngestSample =
  type :: SampleType
  timestamp :: string
  end_time :: "string option"
  data :: sample_data

record IngestPayload =
  user_id :: string
  storage_mode :: StorageMode
  samples :: "IngestSample list"

record HealthSample =
  type :: SampleType
  timestamp :: jsdate
  data :: sample_data

record HealthReadWindow =
  window_start :: jsdate
  window_end :: jsdate

record HealthReadResult =
  samples :: "HealthSample list"
  unavailable :: "string option"

record SyncResult =
  uploaded :: int
  skipped :: int

section \<open>The sync pipeline (\<^verbatim>\<open>sync.ts\<close>)\<close>

text \<open>The callback of \<^verbatim>\<open>samples.map\<close> in \<^verbatim>\<open>toIngestSamples\<close>.\<close>

definition toIngestSample :: "HealthSample \<Rightarrow> error + IngestSample" where
  "toIngestSample s =
     (case toISOString (timestamp s) of
        Inl e \<Rightarrow> Inl e
      | Inr ts \<Rightarrow>
          Inr (if type s = blood_glucose then
                 \<lparr>IngestSample.type = blood_glucose, timestamp = ts, end_time = None, data = data s\<rparr>
               else if type s = heart_rate then
                 \<lparr>IngestSample.type = heart_rate, timestamp = ts, end_time = None, data = data s\<rparr>
               else if type s = blood_pressure then
                 \<lparr>IngestSample.type = blood_pressure, timestamp = ts, end_time = None, data = data s\<rparr>
               else if type s = steps then
                 \<lparr>IngestSample.type = steps, timestamp = ts, end_time = None, data = data s\<rparr>
               else if type s = exercise_minutes then
                 \<lparr>IngestSample.type = exercise_minutes, timestamp = ts, end_time = None, data = data s\<rparr>
               else
                 \<lparr>IngestSample.type = ecg, timestamp = ts, end_time = None, data = data s\<rparr>))"

fun toIngestSamples :: "HealthSample list \<Rightarrow> error + IngestSample list" where
  "toIngestSamples [] = Inr []"
| "toIngestSamples (s # ss) =
     (case toIngestSample s of
        Inl e \<Rightarrow> Inl e
      | Inr w \<Rightarrow> (case toIngestSamples ss of Inl e \<Rightarrow> Inl e | Inr ws \<Rightarrow> Inr (w # ws)))"

text \<open>
  \<^verbatim>\<open>api.post\<close> belongs to the API client, which is not among the sources: it is the
  parameter \<open>post\<close>, which fails or yields the \<^verbatim>\<open>inserted\<close> count of the response body
  (an integer by the wire contract). The model returns, with the outcome, the requests
  the call has issued.
\<close>

type_synonym request = "string \<times> IngestPayload"

definition uploadToBackend ::
  "(string \<Rightarrow> IngestPayload \<Rightarrow> error + int) \<Rightarrow> string \<Rightarrow> StorageMode \<Rightarrow> HealthSample list
     \<Rightarrow> request list \<times> (error + SyncResult)" where
  "uploadToBackend post userId storageMode ss =
     (if storageMode = local_only then
        ([], Inr \<lparr>uploaded = 0, skipped = int (length ss)\<rparr>)
      else
        (case toIngestSamples ss of
           Inl e \<Rightarrow> ([], Inl e)
         | Inr wire \<Rightarrow>
             (let payload =
                    \<lparr>user_id = userId, storage_mode = storageMode, samples = wire\<rparr>
              in ([(''/samples'', payload)],
                  (case post ''/samples'' payload of
                     Inl e \<Rightarrow> Inl e
                   | Inr inserted \<Rightarrow>
                       Inr \<lparr>uploaded = inserted,
                            skipped = int (length ss) - inserted\<rparr>)))))"

section \<open>The platform connector (\<^verbatim>\<open>healthProvider.ts\<close>)\<close>

subsection \<open>The two platform modules\<close>

text \<open>
  The native bridges are outside the repository. A HealthKit function is modelled by the
  pair \<open>(err, res)\<close> it passes to its callback, a Health Connect function by the value
  its promise settles with. A query result is typed \<^verbatim>\<open>any[]\<close>: a list of vendor records,
  or \<open>None\<close> for \<^verbatim>\<open>null\<close> or \<^verbatim>\<open>undefined\<close>. A callback that is never called is not
  modelled.
\<close>

datatype platform_os = ios | android | other_os

text \<open>
  The \<^verbatim>\<open>permissions\<close> object of \<^verbatim>\<open>initHealthKit\<close>: its \<^verbatim>\<open>read\<close> and \<^verbatim>\<open>write\<close> lists.
\<close>

datatype hk_permission =
    BloodGlucose | HeartRate | BloodPressureSystolic | BloodPressureDiastolic
  | StepCount | AppleExerciseTime | Electrocardiogram

record hk_permissions =
  read_list :: "hk_permission list"
  write_list :: "hk_permission list"

record query_opts =
  startDate :: string
  endDate :: string
  limit :: "nat option"
  ascending :: "bool option"

record healthkit =
  initHealthKit :: "hk_permissions \<Rightarrow> jsval"
  getBloodGlucoseSamples :: "query_opts \<Rightarrow> jsval \<times> vrecord list option"
  getHeartRateSamples :: "query_opts \<Rightarrow> jsval \<times> vrecord list option"
  getBloodPressureSamples :: "query_opts \<Rightarrow> jsval \<times> vrecord list option"
  getDailyStepCountSamples :: "query_opts \<Rightarrow> jsval \<times> vrecord list option"
  getAppleExerciseTime :: "query_opts \<Rightarrow> jsval \<times> vrecord list option"
  getElectrocardiogramSamples :: "query_opts \<Rightarrow> jsval \<times> vrecord list option"

record hc_permission =
  accessType :: string
  recordType :: string

record time_range_filter =
  operator :: string
  startTime :: string
  endTime :: string

record read_result =
  records :: "vrecord list option"

record health_connect =
  requestPermission :: "hc_permission list \<Rightarrow> error + hc_permission list"
  readRecords :: "string \<Rightarrow> time_range_filter \<Rightarrow> error + read_result option"

text \<open>
  \<^verbatim>\<open>Platform.OS\<close> and the outcome of the two dynamic imports (\<open>Inl\<close>: the import
  throws, the module is missing).
\<close>

record platform =
  OS :: platform_os
  react_native_health :: "error + healthkit"
  react_native_health_connect :: "error + health_connect"

text \<open>The calls made to the platform, in the order they are issued.\<close>

datatype call =
    InitHealthKit hk_permissions
  | HealthKitQuery string query_opts
  | RequestPermission "hc_permission list"
  | ReadRecords string time_range_filter

subsection \<open>Promises and \<^verbatim>\<open>try\<close>/\<^verbatim>\<open>catch\<close>\<close>

text \<open>The helper \<^verbatim>\<open>p\<close> of \<^verbatim>\<open>readLast24h\<close>: reject on a truthy \<open>err\<close>, else resolve.\<close>

definition p :: "jsval \<times> 'a \<Rightarrow> error + 'a" where
  "p cb = (if truthy (fst cb) then Inl (Thrown (fst cb)) else Inr (snd cb))"

text \<open>
  \<^verbatim>\<open>Promise.all\<close>: the results in order when every promise resolves, a rejection as
  soon as one rejects. Which rejection wins when several promises reject depends on
  the order they settle in; the model takes the first in the array.
\<close>

fun Promise_all :: "(error + 'a) list \<Rightarrow> error + 'a list" where
  "Promise_all [] = Inr []"
| "Promise_all (Inl e # rs) = Inl e"
| "Promise_all (Inr x # rs) =
     (case Promise_all rs of Inl e \<Rightarrow> Inl e | Inr xs \<Rightarrow> Inr (x # xs))"



subsection \<open>\<^verbatim>\<open>requestPermissions\<close>\<close>








subsection \<open>\<^verbatim>\<open>readLast24h\<close>: normalising one vendor record\<close>

text \<open>
  Each function below is the body of one \<^verbatim>\<open>for\<close> loop of \<^verbatim>\<open>readLast24h\<close>. The iOS
  loops push a sample for every record; the guarded Android loops push one or none.
\<close>

definition ios_glucose :: "engine \<Rightarrow> vrecord \<Rightarrow> HealthSample" where
  "ios_glucose js g =
     (let mgDl0 = toNumber js (field g ''value'');
          mgDl = (if field g ''unit'' = JStr ''mmolPerL'' \<or> field g ''unit'' = JStr ''mmol/L''
                  then jmul mgDl0 (Fin (18018 / 1000)) else mgDl0)
      in \<lparr>type = blood_glucose,
          timestamp = newDate js (field g ''startDate''),
          data = GlucoseData mgDl
                   (if truthy (opt_get (field g ''metadata'') ''HKWasUserEntered'')
                    then manual else cgm)\<rparr>)"

definition ios_heart_rate :: "engine \<Rightarrow> vrecord \<Rightarrow> HealthSample" where
  "ios_heart_rate js h =
     \<lparr>type = heart_rate,
      timestamp = newDate js (field h ''startDate''),
      data = HeartRateData (toNumber js (field h ''value''))\<rparr>"

definition ios_blood_pressure :: "engine \<Rightarrow> vrecord \<Rightarrow> HealthSample" where
  "ios_blood_pressure js b =
     \<lparr>type = blood_pressure,
      timestamp = newDate js (field b ''startDate''),
      data = BloodPressureData
               (toNumber js (field b ''bloodPressureSystolicValue''))
               (toNumber js (field b ''bloodPressureDiastolicValue''))\<rparr>"

definition ios_steps :: "engine \<Rightarrow> vrecord \<Rightarrow> HealthSample" where
  "ios_steps js s =
     \<lparr>type = steps,
      timestamp = newDate js (field s ''startDate''),
      data = StepsData (jdiv (toNumber js (field s ''value'')) (Fin (24 * 60)))
               (Fin (24 * 60))\<rparr>"

definition ios_exercise :: "engine \<Rightarrow> vrecord \<Rightarrow> HealthSample" where
  "ios_exercise js m =
     \<lparr>type = exercise_minutes,
      timestamp = newDate js (field m ''startDate''),
      data = ExerciseData (toNumber js (field m ''value''))\<rparr>"

definition ios_ecg :: "engine \<Rightarrow> vrecord \<Rightarrow> HealthSample" where
  "ios_ecg js e =
     \<lparr>type = ecg,
      timestamp = newDate js (field e ''startDate''),
      data = EcgData (field e ''averageHeartRate'') (field e ''classification'')
               (field e ''samplingFrequency'') (field e ''voltageMeasurements'')\<rparr>"

text \<open>
  In \<open>android_glucose\<close> the read \<^verbatim>\<open>g.level.inMmolPerL\<close> is behind the test that
  \<^verbatim>\<open>g.level?.inMmolPerL\<close> is truthy, so it is the same read.
\<close>

definition android_glucose :: "engine \<Rightarrow> vrecord \<Rightarrow> HealthSample option" where
  "android_glucose js g =
     (let inMgPerDl = opt_get (field g ''level'') ''inMgPerDl'';
          inMmolPerL = opt_get (field g ''level'') ''inMmolPerL'';
          mgDl = (if \<not> nullish inMgPerDl then inMgPerDl
                  else if truthy inMmolPerL
                       then JNum (jmul (toNumber js inMmolPerL) (Fin (18018 / 1000)))
                       else JUndefined)
      in if \<not> nullish mgDl then
           Some \<lparr>type = blood_glucose,
                 timestamp = newDate js (field g ''time''),
                 data = GlucoseData (toNumber js mgDl)
                          (if truthy (opt_get (field g ''metadata'') ''dataOrigin'')
                           then cgm else manual)\<rparr>
         else None)"

definition android_heart_rate :: "engine \<Rightarrow> vrecord \<Rightarrow> HealthSample option" where
  "android_heart_rate js h =
     (let first = opt_get (opt_index0 (field h ''samples'')) ''beatsPerMinute'';
          bpm = (if \<not> nullish (field h ''beatsPerMinute'') then field h ''beatsPerMinute''
                 else if \<not> nullish first then first else JUndefined)
      in if \<not> nullish bpm then
           Some \<lparr>type = heart_rate,
                 timestamp = newDate js (field h ''time''),
                 data = HeartRateData (toNumber js bpm)\<rparr>
         else None)"

definition android_blood_pressure :: "engine \<Rightarrow> vrecord \<Rightarrow> HealthSample option" where
  "android_blood_pressure js b =
     (let systolic = opt_get (field b ''systolic'') ''inMillimetersOfMercury'';
          diastolic = opt_get (field b ''diastolic'') ''inMillimetersOfMercury''
      in if \<not> nullish systolic \<and> \<not> nullish diastolic then
           Some \<lparr>type = blood_pressure,
                 timestamp = newDate js (field b ''time''),
                 data = BloodPressureData (toNumber js systolic) (toNumber js diastolic)\<rparr>
         else None)"

text \<open>\<^verbatim>\<open>Math.round((end.getTime() - start.getTime()) / 60000)\<close>.\<close>

definition rounded_minutes :: "jsdate \<Rightarrow> jsdate \<Rightarrow> jsnum" where
  "rounded_minutes start end' =
     Math_round (jdiv (jsub (getTime end') (getTime start)) (Fin 60000))"

definition android_steps :: "engine \<Rightarrow> vrecord \<Rightarrow> HealthSample" where
  "android_steps js s =
     (let start = newDate js (field s ''startTime'');
          end' = newDate js (field s ''endTime'');
          mins = Math_max (Fin 1) (rounded_minutes start end')
      in \<lparr>type = steps,
          timestamp = start,
          data = StepsData (jdiv (toNumber js (field s ''count'')) mins) mins\<rparr>)"

definition android_exercise :: "engine \<Rightarrow> vrecord \<Rightarrow> HealthSample" where
  "android_exercise js ex =
     (let start = newDate js (field ex ''startTime'');
          end' = newDate js (field ex ''endTime'');
          mins = Math_max (Fin 0) (rounded_minutes start end')
      in \<lparr>type = exercise_minutes, timestamp = start, data = ExerciseData mins\<rparr>)"

subsection \<open>\<^verbatim>\<open>readLast24h\<close>: the loops and the two platform branches\<close>

text \<open>
  On either platform the function imports the module, formats the window, starts one
  read per category, joins them with \<^verbatim>\<open>Promise.all\<close> and normalises the results
  category by category. Nothing in it catches an exception.
\<close>

text \<open>\<^verbatim>\<open>for (const r of rs) samples.push(f(r))\<close>, and the loop with a guarded push.\<close>

fun push_each :: "('r \<Rightarrow> 's) \<Rightarrow> 'r list \<Rightarrow> 's list \<Rightarrow> 's list" where
  "push_each f [] acc = acc"
| "push_each f (r # rs) acc = push_each f rs (acc @ [f r])"

fun push_some :: "('r \<Rightarrow> 's option) \<Rightarrow> 'r list \<Rightarrow> 's list \<Rightarrow> 's list" where
  "push_some f [] acc = acc"
| "push_some f (r # rs) acc =
     push_some f rs (case f r of None \<Rightarrow> acc | Some s \<Rightarrow> acc @ [s])"

text \<open>\<^verbatim>\<open>xs ?? []\<close>, and \<^verbatim>\<open>res?.records ?? []\<close>.\<close>

definition or_empty :: "'a list option \<Rightarrow> 'a list" where
  "or_empty xs = (case xs of None \<Rightarrow> [] | Some ys \<Rightarrow> ys)"

definition records_or_empty :: "read_result option \<Rightarrow> vrecord list" where
  "records_or_empty res = (case res of None \<Rightarrow> [] | Some r \<Rightarrow> or_empty (records r))"

text \<open>The six promises given to \<^verbatim>\<open>Promise.all\<close> on iOS, the five on Android.\<close>

definition ios_category_reads ::
  "healthkit \<Rightarrow> query_opts \<Rightarrow> (error + vrecord list option) list" where
  "ios_category_reads AppleHealthKit opts =
     [p (getBloodGlucoseSamples AppleHealthKit opts),
      p (getHeartRateSamples AppleHealthKit opts),
      p (getBloodPressureSamples AppleHealthKit opts),
      p (getDailyStepCountSamples AppleHealthKit
           \<lparr>startDate = startDate opts, endDate = endDate opts,
            limit = None, ascending = None\<rparr>),
      p (getAppleExerciseTime AppleHealthKit opts),
      p (getElectrocardiogramSamples AppleHealthKit (opts\<lparr>limit := Some 3\<rparr>))]"

definition android_category_reads ::
  "health_connect \<Rightarrow> time_range_filter \<Rightarrow> (error + read_result option) list" where
  "android_category_reads hc timeRangeFilter =
     [readRecords hc ''BloodGlucose'' timeRangeFilter,
      readRecords hc ''HeartRate'' timeRangeFilter,
      readRecords hc ''BloodPressure'' timeRangeFilter,
      readRecords hc ''Steps'' timeRangeFilter,
      readRecords hc ''ExerciseSession'' timeRangeFilter]"

text \<open>The calls these promises stand for.\<close>

definition ios_category_calls :: "query_opts \<Rightarrow> call list" where
  "ios_category_calls opts =
     [HealthKitQuery ''getBloodGlucoseSamples'' opts,
      HealthKitQuery ''getHeartRateSamples'' opts,
      HealthKitQuery ''getBloodPressureSamples'' opts,
      HealthKitQuery ''getDailyStepCountSamples''
        \<lparr>startDate = startDate opts, endDate = endDate opts,
         limit = None, ascending = None\<rparr>,
      HealthKitQuery ''getAppleExerciseTime'' opts,
      HealthKitQuery ''getElectrocardiogramSamples'' (opts\<lparr>limit := Some 3\<rparr>)]"

definition android_category_calls :: "time_range_filter \<Rightarrow> call list" where
  "android_category_calls timeRangeFilter =
     [ReadRecords ''BloodGlucose'' timeRangeFilter,
      ReadRecords ''HeartRate'' timeRangeFilter,
      ReadRecords ''BloodPressure'' timeRangeFilter,
      ReadRecords ''Steps'' timeRangeFilter,
      ReadRecords ''ExerciseSession'' timeRangeFilter]"

text \<open>The normalisation loops, over the results \<open>rs\<close> of the joined reads.\<close>

definition ios_normalize :: "engine \<Rightarrow> vrecord list option list \<Rightarrow> HealthSample list" where
  "ios_normalize js rs =
     (let acc = [];
          acc = push_each (ios_glucose js) (or_empty (rs ! 0)) acc;
          acc = push_each (ios_heart_rate js) (or_empty (rs ! 1)) acc;
          acc = push_each (ios_blood_pressure js) (or_empty (rs ! 2)) acc;
          acc = push_each (ios_steps js) (or_empty (rs ! 3)) acc;
          acc = push_each (ios_exercise js) (or_empty (rs ! 4)) acc;
          acc = push_each (ios_ecg js) (or_empty (rs ! 5)) acc
      in acc)"

definition android_normalize :: "engine \<Rightarrow> read_result option list \<Rightarrow> HealthSample list" where
  "android_normalize js rs =
     (let acc = [];
          acc = push_some (android_glucose js) (records_or_empty (rs ! 0)) acc;
          acc = push_some (android_heart_rate js) (records_or_empty (rs ! 1)) acc;
          acc = push_some (android_blood_pressure js) (records_or_empty (rs ! 2)) acc;
          acc = push_each (android_steps js) (records_or_empty (rs ! 3)) acc;
          acc = push_each (android_exercise js) (records_or_empty (rs ! 4)) acc
      in acc)"

definition readLast24h_ios ::
  "engine \<Rightarrow> platform \<Rightarrow> HealthReadWindow \<Rightarrow> call list \<times> (error + HealthReadResult)" where
  "readLast24h_ios js pf window =
     (case react_native_health pf of
        Inl e \<Rightarrow> ([], Inl e)
      | Inr AppleHealthKit \<Rightarrow>
     (case toISOString (window_start window) of
        Inl e \<Rightarrow> ([], Inl e)
      | Inr startDate' \<Rightarrow>
     (case toISOString (window_end window) of
        Inl e \<Rightarrow> ([], Inl e)
      | Inr endDate' \<Rightarrow>
          (let opts = \<lparr>startDate = startDate', endDate = endDate',
                       limit = Some 1000, ascending = Some True\<rparr>
           in (ios_category_calls opts,
               (case Promise_all (ios_category_reads AppleHealthKit opts) of
                  Inl e \<Rightarrow> Inl e
                | Inr rs \<Rightarrow> Inr \<lparr>samples = ios_normalize js rs, unavailable = None\<rparr>))))))"

definition readLast24h_android ::
  "engine \<Rightarrow> platform \<Rightarrow> HealthReadWindow \<Rightarrow> call list \<times> (error + HealthReadResult)" where
  "readLast24h_android js pf window =
     (case react_native_health_connect pf of
        Inl e \<Rightarrow> ([], Inl e)
      | Inr hc \<Rightarrow>
     (case toISOString (window_start window) of
        Inl e \<Rightarrow> ([], Inl e)
      | Inr startTime' \<Rightarrow>
     (case toISOString (window_end window) of
        Inl e \<Rightarrow> ([], Inl e)
      | Inr endTime' \<Rightarrow>
          (let timeRangeFilter =
                 \<lparr>operator = ''between'', startTime = startTime', endTime = endTime'\<rparr>
           in (android_category_calls timeRangeFilter,
               (case Promise_all (android_category_reads hc timeRangeFilter) of
                  Inl e \<Rightarrow> Inl e
                | Inr rs \<Rightarrow>
                    Inr \<lparr>samples = android_normalize js rs, unavailable = None\<rparr>))))))"

definition readLast24h ::
  "engine \<Rightarrow> platform \<Rightarrow> HealthReadWindow \<Rightarrow> call list \<times> (error + HealthReadResult)" where
  "readLast24h js pf window =
     (if OS pf = ios then readLast24h_ios js pf window
      else if OS pf = android then readLast24h_android js pf window
      else ([], Inr \<lparr>samples = [], unavailable = Some ''Unsupported platform''\<rparr>))"

subsection \<open>The data category behind a permission\<close>



section \<open>Example inputs\<close>

text \<open>
  Five canonical samples of the first minutes of 2024-01-01 (UTC), one of each type but
  ECG, and their wire form.
\<close>

definition five_samples :: "HealthSample list" where
  "five_samples =
     [\<lparr>type = blood_glucose, timestamp = TimeValue 1704067200000,
       data = GlucoseData (Fin 140) cgm\<rparr>,
      \<lparr>type = heart_rate, timestamp = TimeValue 1704067260000, data = HeartRateData (Fin 72)\<rparr>,
      \<lparr>type = blood_pressure, timestamp = TimeValue 1704067320000,
       data = BloodPressureData (Fin 120) (Fin 80)\<rparr>,
      \<lparr>type = steps, timestamp = TimeValue 1704067380000, data = StepsData (Fin 50) (Fin 2)\<rparr>,
      \<lparr>type = exercise_minutes, timestamp = TimeValue 1704067440000,
       data = ExerciseData (Fin 30)\<rparr>]"

definition five_wire :: "IngestSample list" where
  "five_wire =
     [\<lparr>IngestSample.type = blood_glucose, timestamp = ''2024-01-01T00:00:00.000Z'',
       end_time = None, data = GlucoseData (Fin 140) cgm\<rparr>,
      \<lparr>IngestSample.type = heart_rate, timestamp = ''2024-01-01T00:01:00.000Z'',
       end_time = None, data = HeartRateData (Fin 72)\<rparr>,
      \<lparr>IngestSample.type = blood_pressure, timestamp = ''2024-01-01T00:02:00.000Z'',
       end_time = None, data = BloodPressureData (Fin 120) (Fin 80)\<rparr>,
      \<lparr>IngestSample.type = steps, timestamp = ''2024-01-01T00:03:00.000Z'',
       end_time = None, data = StepsData (Fin 50) (Fin 2)\<rparr>,
      \<lparr>IngestSample.type = exercise_minutes, timestamp = ''2024-01-01T00:04:00.000Z'',
       end_time = None, data = ExerciseData (Fin 30)\<rparr>]"

text \<open>A backend that reports three samples inserted.\<close>

definition post_inserted_3 :: "string \<Rightarrow> IngestPayload \<Rightarrow> error + int" where
  "post_inserted_3 path body = Inr 3"

text \<open>
  An engine for the example records below, whose dates and numbers are JavaScript
  numbers: its two functions are never consulted on them.
\<close>

definition plain_engine :: engine where
  "plain_engine = \<lparr>parseDate = (\<lambda>v. None), stringToNumber = (\<lambda>v. NaN)\<rparr>"

text \<open>Vendor records taken at 2024-01-01T01:00:00Z.\<close>

definition ios_glucose_mmol :: vrecord where
  "ios_glucose_mmol =
     [(''startDate'', JNum (Fin 1704070800000)), (''value'', JNum (Fin (78 / 10))),
      (''unit'', JStr ''mmol/L''), (''metadata'', JObj [(''HKWasUserEntered'', JBool False)])]"

definition ios_glucose_mg :: vrecord where
  "ios_glucose_mg =
     [(''startDate'', JNum (Fin 1704070800000)), (''value'', JNum (Fin 100)),
      (''unit'', JStr ''mg/dL''), (''metadata'', JObj [(''HKWasUserEntered'', JBool True)])]"

definition android_glucose_mmol :: vrecord where
  "android_glucose_mmol =
     [(''time'', JNum (Fin 1704070800000)),
      (''level'', JObj [(''inMmolPerL'', JNum (Fin (78 / 10)))]),
      (''metadata'', JObj [(''dataOrigin'', JStr ''com.vendor.cgm'')])]"

definition android_glucose_unmarked :: vrecord where
  "android_glucose_unmarked =
     [(''time'', JNum (Fin 1704070800000)),
      (''level'', JObj [(''inMgPerDl'', JNum (Fin 100))])]"

definition ios_bp_no_diastolic :: vrecord where
  "ios_bp_no_diastolic =
     [(''startDate'', JNum (Fin 1704070800000)),
      (''bloodPressureSystolicValue'', JNum (Fin 120))]"

definition android_bp_no_diastolic :: vrecord where
  "android_bp_no_diastolic =
     [(''time'', JNum (Fin 1704070800000)),
      (''systolic'', JObj [(''inMillimetersOfMercury'', JNum (Fin 120))])]"

definition android_steps_90s :: vrecord where
  "android_steps_90s =
     [(''startTime'', JNum (Fin 1704070800000)), (''endTime'', JNum (Fin 1704070890000)),
      (''count'', JNum (Fin 150))]"

definition ios_steps_day :: vrecord where
  "ios_steps_day =
     [(''startDate'', JNum (Fin 1704067200000)), (''value'', JNum (Fin 7200))]"

definition android_steps_zero :: vrecord where
  "android_steps_zero =
     [(''startTime'', JNum (Fin 1704070800000)), (''endTime'', JNum (Fin 1704070800000)),
      (''count'', JNum (Fin 12))]"

text \<open>The day 2024-01-01 (UTC) as a read window, and the options built from it.\<close>

definition day_window :: HealthReadWindow where
  "day_window = \<lparr>window_start = TimeValue 1704067200000, window_end = TimeValue 1704153600000\<rparr>"

definition day_opts :: query_opts where
  "day_opts = \<lparr>startDate = ''2024-01-01T00:00:00.000Z'', endDate = ''2024-01-02T00:00:00.000Z'',
               limit = Some 1000, ascending = Some True\<rparr>"

definition day_filter :: time_range_filter where
  "day_filter = \<lparr>operator = ''between'', startTime = ''2024-01-01T00:00:00.000Z'',
                 endTime = ''2024-01-02T00:00:00.000Z''\<rparr>"



text \<open>An iOS device whose only record is a blood pressure without a diastolic value.\<close>

definition healthkit_bp_incomplete :: healthkit where
  "healthkit_bp_incomplete =
     \<lparr>initHealthKit = (\<lambda>perms. JNull),
      getBloodGlucoseSamples = (\<lambda>opts. (JNull, Some [])),
      getHeartRateSamples = (\<lambda>opts. (JNull, Some [])),
      getBloodPressureSamples = (\<lambda>opts. (JNull, Some [ios_bp_no_diastolic])),
      getDailyStepCountSamples = (\<lambda>opts. (JNull, Some [])),
      getAppleExerciseTime = (\<lambda>opts. (JNull, Some [])),
      getElectrocardiogramSamples = (\<lambda>opts. (JNull, None))\<rparr>"

definition ios_bp_incomplete :: platform where
  "ios_bp_incomplete =
     \<lparr>OS = ios, react_native_health = Inr healthkit_bp_incomplete,
      react_native_health_connect = Inl (Thrown (JStr ''not linked''))\<rparr>"

definition health_connect_example :: health_connect where
  "health_connect_example =
     \<lparr>requestPermission = (\<lambda>ps. Inr []),
      readRecords = (\<lambda>recordType f.
        if recordType = ''BloodGlucose'' then Inr (Some \<lparr>records = Some [android_glucose_mmol]\<rparr>)
        else if recordType = ''BloodPressure''
          then Inr (Some \<lparr>records = Some [android_bp_no_diastolic]\<rparr>)
        else if recordType = ''Steps'' then Inr (Some \<lparr>records = Some [android_steps_90s]\<rparr>)
        else if recordType = ''HeartRate'' then Inr None
        else Inr (Some \<lparr>records = None\<rparr>))\<rparr>"

definition android_example :: platform where
  "android_example =
     \<lparr>OS = android, react_native_health = Inl (Thrown (JStr ''not linked'')),
      react_native_health_connect = Inr health_connect_example\<rparr>"


definition android_example_samples :: "HealthSample list" where
  "android_example_samples =
     [\<lparr>type = blood_glucose, timestamp = TimeValue 1704070800000,
       data = GlucoseData (Fin (1405404 / 10000)) cgm\<rparr>,
      \<lparr>type = steps, timestamp = TimeValue 1704070800000, data = StepsData (Fin 75) (Fin 2)\<rparr>]"

text \<open>
  A glucose record that carries no metadata, as iOS gives it; an Android steps record
  without an \<^verbatim>\<open>endTime\<close>, and an Android device whose only record it is.
\<close>

definition ios_glucose_unmarked :: vrecord where
  "ios_glucose_unmarked =
     [(''startDate'', JNum (Fin 1704070800000)), (''value'', JNum (Fin 100)),
      (''unit'', JStr ''mg/dL'')]"

definition android_steps_no_end :: vrecord where
  "android_steps_no_end =
     [(''startTime'', JNum (Fin 1704070800000)), (''count'', JNum (Fin 150))]"

definition health_connect_steps_no_end :: health_connect where
  "health_connect_steps_no_end =
     \<lparr>requestPermission = (\<lambda>ps. Inr ps),
      readRecords = (\<lambda>recordType f.
        if recordType = ''Steps'' then Inr (Some \<lparr>records = Some [android_steps_no_end]\<rparr>)
        else Inr (Some \<lparr>records = Some []\<rparr>))\<rparr>"

definition android_steps_incomplete :: platform where
  "android_steps_incomplete =
     \<lparr>OS = android, react_native_health = Inl (Thrown (JStr ''not linked'')),
      react_native_health_connect = Inr health_connect_steps_no_end\<rparr>"




section \<open>Properties of the sync pipeline\<close>

lemma toIngestSample_valid:
  "timestamp s = TimeValue t \<Longrightarrow>
   toIngestSample s =
     Inr \<lparr>IngestSample.type = type s, timestamp = iso8601 t, end_time = None, data = data s\<rparr>"
  by (cases "type s") (simp_all add: toIngestSample_def)

lemma toIngestSamples_Inr:
  "toIngestSamples ss = Inr wire \<Longrightarrow>
   length wire = length ss \<and>
   (\<forall>i < length ss. toIngestSample (ss ! i) = Inr (wire ! i))"
proof (induction ss arbitrary: wire)
  case Nil
  then show ?case by simp
next
  case (Cons s ss)
  then obtain w ws where w: "toIngestSample s = Inr w" and ws: "toIngestSamples ss = Inr ws"
    and wire: "wire = w # ws"
    by (auto split: sum.splits)
  from Cons.IH [OF ws] show ?case
    by (auto simp: wire w nth_Cons split: nat.splits)
qed

lemma toIngestSamples_total:
  "\<forall>s \<in> set ss. timestamp s \<noteq> InvalidDate \<Longrightarrow> \<exists>wire. toIngestSamples ss = Inr wire"
proof (induction ss)
  case Nil
  then show ?case by simp
next
  case (Cons s ss)
  then obtain t where "timestamp s = TimeValue t" by (cases "timestamp s") auto
  with Cons show ?case by (auto simp: toIngestSample_valid)
qed

text \<open>A sample with an Invalid Date makes the whole conversion throw.\<close>

lemma toIngestSamples_invalid:
  "\<exists>s \<in> set ss. timestamp s = InvalidDate \<Longrightarrow> toIngestSamples ss = Inl RangeError"
proof (induction ss)
  case Nil
  then show ?case by simp
next
  case (Cons s ss)
  show ?case
  proof (cases "timestamp s")
    case InvalidDate
    then show ?thesis by (simp add: toIngestSample_def)
  next
    case (TimeValue t)
    with Cons show ?thesis by (auto simp: toIngestSample_valid)
  qed
qed

lemma toIngestSamples_five: "toIngestSamples five_samples = Inr five_wire"
  by code_simp

lemma upload_five:
  "uploadToBackend post_inserted_3 ''user-1'' raw five_samples =
     ([(''/samples'', \<lparr>user_id = ''user-1'', storage_mode = raw, samples = five_wire\<rparr>)],
      Inr \<lparr>uploaded = 3, skipped = 2\<rparr>)"
  by (simp add: uploadToBackend_def toIngestSamples_five post_inserted_3_def)
     (simp add: five_samples_def)

text \<open>
  C1. Whatever the storage mode and whatever count the backend reports, a call of
  \<^verbatim>\<open>uploadToBackend\<close> that returns a result returns one with
  \<open>uploaded + skipped = samples.length\<close>.
\<close>

theorem uploadToBackend_accounting:
  "uploadToBackend post userId storageMode ss = (reqs, Inr r) \<Longrightarrow>
   uploaded r + skipped r = int (length ss)"
  by (auto simp: uploadToBackend_def Let_def split: if_splits sum.splits)

theorem uploadToBackend_accounting_witness:
  "snd (uploadToBackend post_inserted_3 ''user-1'' raw five_samples)
     = Inr \<lparr>uploaded = 3, skipped = 2\<rparr> \<and>
   uploaded \<lparr>uploaded = 3, skipped = 2\<rparr> + skipped \<lparr>uploaded = 3, skipped = 2\<rparr>
     = int (length five_samples)"
  using uploadToBackend_accounting [OF upload_five] upload_five by simp

text \<open>
  C2. With storage mode \<^verbatim>\<open>local_only\<close> the call issues no request (so no payload
  reaches the network layer), builds no wire sample (it returns even where building one
  would throw) and returns exactly \<open>{uploaded: 0, skipped: samples.length}\<close>.
\<close>

theorem uploadToBackend_local_only:
  "uploadToBackend post userId local_only ss =
     ([], Inr \<lparr>uploaded = 0, skipped = int (length ss)\<rparr>)"
  by (simp add: uploadToBackend_def)

text \<open>
  C9. For canonical samples (each with a valid timestamp) \<^verbatim>\<open>toIngestSamples\<close> returns
  one wire sample per input sample, in order, with the same type tag and the same data,
  the ISO-8601 string of the timestamp, and no \<^verbatim>\<open>end_time\<close>, whatever the sample type.
\<close>

theorem toIngestSamples_shape:
  assumes "\<forall>s \<in> set ss. timestamp s \<noteq> InvalidDate"
  shows "\<exists>wire. toIngestSamples ss = Inr wire \<and> length wire = length ss \<and>
           (\<forall>i < length ss.
              IngestSample.type (wire ! i) = type (ss ! i) \<and>
              IngestSample.data (wire ! i) = data (ss ! i) \<and>
              toISOString (timestamp (ss ! i)) = Inr (IngestSample.timestamp (wire ! i)) \<and>
              end_time (wire ! i) = None)"
proof -
  from toIngestSamples_total [OF assms] obtain wire where wire: "toIngestSamples ss = Inr wire"
    by blast
  note shape = toIngestSamples_Inr [OF wire]
  have "IngestSample.type (wire ! i) = type (ss ! i) \<and>
        IngestSample.data (wire ! i) = data (ss ! i) \<and>
        toISOString (timestamp (ss ! i)) = Inr (IngestSample.timestamp (wire ! i)) \<and>
        end_time (wire ! i) = None" if i: "i < length ss" for i
  proof -
    from i assms have "timestamp (ss ! i) \<noteq> InvalidDate" by simp
    then obtain t where t: "timestamp (ss ! i) = TimeValue t"
      by (cases "timestamp (ss ! i)") auto
    from shape i have "toIngestSample (ss ! i) = Inr (wire ! i)" by blast
    with toIngestSample_valid [OF t] have
      "wire ! i = \<lparr>IngestSample.type = type (ss ! i), timestamp = iso8601 t, end_time = None,
                   data = data (ss ! i)\<rparr>" by simp
    then show ?thesis by (simp add: t)
  qed
  with wire shape show ?thesis by blast
qed

theorem toIngestSamples_shape_witness:
  "toIngestSamples five_samples = Inr five_wire \<and>
   length five_wire = length five_samples \<and>
   IngestSample.type (five_wire ! 3) = type (five_samples ! 3) \<and>
   IngestSample.data (five_wire ! 3) = data (five_samples ! 3) \<and>
   toISOString (timestamp (five_samples ! 3)) = Inr (IngestSample.timestamp (five_wire ! 3)) \<and>
   end_time (five_wire ! 3) = None"
proof -
  have valid: "\<forall>s \<in> set five_samples. timestamp s \<noteq> InvalidDate"
    by (simp add: five_samples_def)
  from toIngestSamples_shape [OF valid] obtain wire where
    wire: "toIngestSamples five_samples = Inr wire" and
    len: "length wire = length five_samples" and
    each: "\<forall>i < length five_samples.
             IngestSample.type (wire ! i) = type (five_samples ! i) \<and>
             IngestSample.data (wire ! i) = data (five_samples ! i) \<and>
             toISOString (timestamp (five_samples ! i)) = Inr (IngestSample.timestamp (wire ! i)) \<and>
             end_time (wire ! i) = None"
    by blast
  from wire have eq: "wire = five_wire" by (simp add: toIngestSamples_five)
  have "3 < length five_samples" by (simp add: five_samples_def)
  with each have
    "IngestSample.type (wire ! 3) = type (five_samples ! 3) \<and>
     IngestSample.data (wire ! 3) = data (five_samples ! 3) \<and>
     toISOString (timestamp (five_samples ! 3)) = Inr (IngestSample.timestamp (wire ! 3)) \<and>
     end_time (wire ! 3) = None"
    by blast
  with wire len show ?thesis by (simp add: eq)
qed

section \<open>Properties of the connector: one record\<close>

lemma android_glucose_mmol_dropped:
  "nullish (opt_get (field h ''level'') ''inMgPerDl'') \<Longrightarrow>
   opt_get (field h ''level'') ''inMmolPerL'' = JNum v \<Longrightarrow>
   (android_glucose js h = None) = (v = Fin 0 \<or> v = NaN)"
  by (cases v) (auto simp: android_glucose_def Let_def split: if_splits)

lemma ios_glucose_mmol_value:
  "ios_glucose plain_engine ios_glucose_mmol =
     \<lparr>type = blood_glucose, timestamp = TimeValue 1704070800000,
      data = GlucoseData (Fin (1405404 / 10000)) cgm\<rparr>"
  by (simp add: ios_glucose_def ios_glucose_mmol_def plain_engine_def field_def)

lemma ios_glucose_mg_value:
  "ios_glucose plain_engine ios_glucose_mg =
     \<lparr>type = blood_glucose, timestamp = TimeValue 1704070800000,
      data = GlucoseData (Fin 100) manual\<rparr>"
  by (simp add: ios_glucose_def ios_glucose_mg_def plain_engine_def field_def)

lemma android_glucose_mmol_value:
  "android_glucose plain_engine android_glucose_mmol =
     Some \<lparr>type = blood_glucose, timestamp = TimeValue 1704070800000,
           data = GlucoseData (Fin (1405404 / 10000)) cgm\<rparr>"
  by (simp add: android_glucose_def android_glucose_mmol_def plain_engine_def field_def)

lemma android_glucose_unmarked_value:
  "android_glucose plain_engine android_glucose_unmarked =
     Some \<lparr>type = blood_glucose, timestamp = TimeValue 1704070800000,
           data = GlucoseData (Fin 100) manual\<rparr>"
  by (simp add: android_glucose_def android_glucose_unmarked_def plain_engine_def field_def)



text \<open>
  The test each branch makes: iOS reads \<^verbatim>\<open>metadata.HKWasUserEntered\<close>, Android reads
  \<^verbatim>\<open>metadata.dataOrigin\<close>.
\<close>

lemma glucose_source_tests:
  "(source (data (ios_glucose js g)) = manual)
      = truthy (opt_get (field g ''metadata'') ''HKWasUserEntered'') \<and>
   (source (data (ios_glucose js g)) = cgm)
      = (\<not> truthy (opt_get (field g ''metadata'') ''HKWasUserEntered'')) \<and>
   (android_glucose js h = Some s \<longrightarrow>
      (source (data s) = cgm) = truthy (opt_get (field h ''metadata'') ''dataOrigin'') \<and>
      (source (data s) = manual) = (\<not> truthy (opt_get (field h ''metadata'') ''dataOrigin'')))"
  by (auto simp: ios_glucose_def android_glucose_def Let_def split: if_splits)

text \<open>
  C5 at a glucose record that nothing marks as entered by the user (100 mg/dL, no
  metadata): the iOS branch tags it \<^verbatim>\<open>cgm\<close>, as the rule says, and the Android branch
  tags it \<^verbatim>\<open>manual\<close>, its default being the other way round.
\<close>

theorem android_glucose_unmarked_tagged_manual:
  "opt_get (field android_glucose_unmarked ''metadata'') ''dataOrigin'' = JUndefined \<and>
   android_glucose plain_engine android_glucose_unmarked =
     Some \<lparr>type = blood_glucose, timestamp = TimeValue 1704070800000,
           data = GlucoseData (Fin 100) manual\<rparr> \<and>
   opt_get (field ios_glucose_unmarked ''metadata'') ''HKWasUserEntered'' = JUndefined \<and>
   ios_glucose plain_engine ios_glucose_unmarked =
     \<lparr>type = blood_glucose, timestamp = TimeValue 1704070800000,
      data = GlucoseData (Fin 100) cgm\<rparr>"
proof -
  have "opt_get (field android_glucose_unmarked ''metadata'') ''dataOrigin'' = JUndefined"
    by (simp add: android_glucose_unmarked_def field_def)
  moreover have
    "opt_get (field ios_glucose_unmarked ''metadata'') ''HKWasUserEntered'' = JUndefined"
    by (simp add: ios_glucose_unmarked_def field_def)
  moreover have "ios_glucose plain_engine ios_glucose_unmarked =
     \<lparr>type = blood_glucose, timestamp = TimeValue 1704070800000,
      data = GlucoseData (Fin 100) cgm\<rparr>"
    by (simp add: ios_glucose_def ios_glucose_unmarked_def plain_engine_def field_def)
  ultimately show ?thesis using android_glucose_unmarked_value by blast
qed

lemma push_each_eq: "push_each f rs acc = acc @ map f rs"
  by (induction rs arbitrary: acc) simp_all

lemma push_some_eq: "push_some f rs acc = acc @ List.map_filter f rs"
  by (induction rs arbitrary: acc) (simp_all split: option.splits)

lemma map_filter_length_less:
  "r \<in> set rs \<Longrightarrow> f r = None \<Longrightarrow> length (List.map_filter f rs) < length rs"
proof (induction rs)
  case Nil
  then show ?case by simp
next
  case (Cons x xs)
  have le: "length (List.map_filter f xs) \<le> length xs"
    by (simp add: List.map_filter_def)
  from Cons show ?case
    using le by (cases "f x") (auto simp: List.map_filter_simps)
qed

lemma android_blood_pressure_incomplete:
  "nullish (opt_get (field b ''systolic'') ''inMillimetersOfMercury'') \<or>
   nullish (opt_get (field b ''diastolic'') ''inMillimetersOfMercury'') \<Longrightarrow>
   android_blood_pressure js b = None"
  by (auto simp: android_blood_pressure_def Let_def)

lemma android_blood_pressure_count:
  assumes "b \<in> set bs"
    and "nullish (opt_get (field b ''systolic'') ''inMillimetersOfMercury'') \<or>
         nullish (opt_get (field b ''diastolic'') ''inMillimetersOfMercury'')"
  shows "length (push_some (android_blood_pressure js) bs []) < length bs"
proof -
  have "android_blood_pressure js b = None"
    using assms(2) by (rule android_blood_pressure_incomplete)
  with assms(1) have "length (List.map_filter (android_blood_pressure js) bs) < length bs"
    by (rule map_filter_length_less)
  then show ?thesis by (simp add: push_some_eq)
qed

lemma rounded_minutes_valid:
  "rounded_minutes (TimeValue a) (TimeValue b) = Fin (of_int \<lfloor>of_int (b - a) / (60000::rat) + 1 / 2\<rfloor>)"
  by (simp add: rounded_minutes_def)

lemma Math_max_1_nonzero: "Math_max (Fin 1) n \<noteq> Fin 0"
  by (cases n) (auto simp: max_def)

lemma Math_max_1_int: "Math_max (Fin 1) (Fin (of_int m)) = Fin (of_int (max 1 m))"
  by (simp add: max_def)

lemma android_steps_valid:
  assumes "newDate js (field s ''startTime'') = TimeValue a"
    and "newDate js (field s ''endTime'') = TimeValue b"
  shows "data (android_steps js s) =
           StepsData
             (jdiv (toNumber js (field s ''count''))
                (Fin (of_int (max 1 \<lfloor>of_int (b - a) / (60000::rat) + 1 / 2\<rfloor>))))
             (Fin (of_int (max 1 \<lfloor>of_int (b - a) / (60000::rat) + 1 / 2\<rfloor>)))"
  using assms
  by (simp only: android_steps_def Let_def rounded_minutes_valid Math_max_1_int
        HealthSample.simps)

text \<open>With a start or an end that is no valid date the minutes are \<^verbatim>\<open>NaN\<close>.\<close>

lemma android_steps_invalid_date:
  "newDate js (field s ''startTime'') = InvalidDate \<or>
   newDate js (field s ''endTime'') = InvalidDate \<Longrightarrow>
   data (android_steps js s) = StepsData NaN NaN"
proof -
  have a: "jsub n NaN = NaN" for n by (cases n) simp_all
  have b: "jdiv n NaN = NaN" for n by (cases n) simp_all
  assume "newDate js (field s ''startTime'') = InvalidDate \<or>
   newDate js (field s ''endTime'') = InvalidDate"
  then show ?thesis
    by (auto simp: android_steps_def Let_def rounded_minutes_def a b)
qed

lemma jdiv_Fin_pos: "1 \<le> k \<Longrightarrow> jdiv (Fin c) (Fin (of_int k)) = Fin (c / of_int k)"
  by simp

text \<open>
  A steps record whose start and end are valid dates: with count \<open>c\<close> and an interval
  that rounds to \<open>m\<close> minutes, Android gives \<open>spm = c / max(1, m)\<close> and
  \<open>interval_minutes = max(1, m)\<close>; an iOS record is a daily total, \<open>m = 24 * 60\<close>. The
  divisor, which is \<open>interval_minutes\<close>, is never zero, whatever the record.
\<close>

lemma steps_rate_valid_dates:
  "(newDate js (field s ''startTime'') = TimeValue a \<longrightarrow>
    newDate js (field s ''endTime'') = TimeValue b \<longrightarrow>
    field s ''count'' = JNum (Fin c) \<longrightarrow>
      (let m = \<lfloor>of_int (b - a) / (60000::rat) + 1 / 2\<rfloor> in
       data (android_steps js s)
         = StepsData (Fin (c / of_int (max 1 m))) (Fin (of_int (max 1 m))))) \<and>
   (field t ''value'' = JNum (Fin c) \<longrightarrow>
      data (ios_steps js t) = StepsData (Fin (c / of_int (max 1 1440))) (Fin (of_int (max 1 1440)))) \<and>
   interval_minutes (data (android_steps js s)) \<noteq> Fin 0 \<and>
   interval_minutes (data (ios_steps js t)) \<noteq> Fin 0"
proof (intro conjI impI)
  assume a: "newDate js (field s ''startTime'') = TimeValue a"
    and b: "newDate js (field s ''endTime'') = TimeValue b"
    and c: "field s ''count'' = JNum (Fin c)"
  have "jdiv (Fin c) (Fin (of_int (max 1 \<lfloor>of_int (b - a) / (60000::rat) + 1 / 2\<rfloor>)))
        = Fin (c / of_int (max 1 \<lfloor>of_int (b - a) / (60000::rat) + 1 / 2\<rfloor>))"
    by (rule jdiv_Fin_pos) simp
  with android_steps_valid [OF a b] c
  show "let m = \<lfloor>of_int (b - a) / (60000::rat) + 1 / 2\<rfloor> in
       data (android_steps js s)
         = StepsData (Fin (c / of_int (max 1 m))) (Fin (of_int (max 1 m)))"
    by (simp add: Let_def)
next
  assume "field t ''value'' = JNum (Fin c)"
  then show "data (ios_steps js t)
      = StepsData (Fin (c / of_int (max 1 1440))) (Fin (of_int (max 1 1440)))"
    by (simp add: ios_steps_def)
next
  show "interval_minutes (data (android_steps js s)) \<noteq> Fin 0"
    by (simp add: android_steps_def Let_def Math_max_1_nonzero)
next
  show "interval_minutes (data (ios_steps js t)) \<noteq> Fin 0"
    by (simp add: ios_steps_def)
qed

lemma steps_rate_examples:
  "data (android_steps plain_engine android_steps_90s) = StepsData (Fin 75) (Fin 2) \<and>
   data (android_steps plain_engine android_steps_zero) = StepsData (Fin 12) (Fin 1) \<and>
   data (ios_steps plain_engine ios_steps_day) = StepsData (Fin 5) (Fin 1440)"
proof -
  have a: "newDate plain_engine (field android_steps_90s ''startTime'') = TimeValue 1704070800000"
    and b: "newDate plain_engine (field android_steps_90s ''endTime'') = TimeValue 1704070890000"
    and c: "field android_steps_90s ''count'' = JNum (Fin 150)"
    by (simp_all add: android_steps_90s_def field_def)
  have a0: "newDate plain_engine (field android_steps_zero ''startTime'') = TimeValue 1704070800000"
    and b0: "newDate plain_engine (field android_steps_zero ''endTime'') = TimeValue 1704070800000"
    and c0: "field android_steps_zero ''count'' = JNum (Fin 12)"
    by (simp_all add: android_steps_zero_def field_def)
  have d: "field ios_steps_day ''value'' = JNum (Fin 7200)"
    by (simp add: ios_steps_day_def field_def)
  from steps_rate_valid_dates [of plain_engine android_steps_90s 1704070800000 1704070890000 150
      ios_steps_day] a b c
  have 1: "data (android_steps plain_engine android_steps_90s) = StepsData (Fin 75) (Fin 2)"
    by (simp add: Let_def)
  from steps_rate_valid_dates [of plain_engine android_steps_zero 1704070800000 1704070800000 12
      ios_steps_day] a0 b0 c0
  have 2: "data (android_steps plain_engine android_steps_zero) = StepsData (Fin 12) (Fin 1)"
    by (simp add: Let_def)
  from steps_rate_valid_dates [of plain_engine android_steps_90s 1704070800000 1704070890000 7200
      ios_steps_day] d
  have 3: "data (ios_steps plain_engine ios_steps_day) = StepsData (Fin 5) (Fin 1440)"
    by simp
  from 1 2 3 show ?thesis by blast
qed

section \<open>Properties of the connector: a whole read\<close>

lemma day_window_iso:
  "toISOString (window_start day_window) = Inr ''2024-01-01T00:00:00.000Z''"
  "toISOString (window_end day_window) = Inr ''2024-01-02T00:00:00.000Z''"
  by code_simp+


lemma Promise_all_resolved: "Promise_all (map Inr xs) = Inr xs"
  by (induction xs) simp_all

lemma ios_normalize_eq:
  "ios_normalize js rs =
     map (ios_glucose js) (or_empty (rs ! 0)) @
     map (ios_heart_rate js) (or_empty (rs ! 1)) @
     map (ios_blood_pressure js) (or_empty (rs ! 2)) @
     map (ios_steps js) (or_empty (rs ! 3)) @
     map (ios_exercise js) (or_empty (rs ! 4)) @
     map (ios_ecg js) (or_empty (rs ! 5))"
  by (simp add: ios_normalize_def Let_def push_each_eq)

lemma android_normalize_eq:
  "android_normalize js rs =
     List.map_filter (android_glucose js) (records_or_empty (rs ! 0)) @
     List.map_filter (android_heart_rate js) (records_or_empty (rs ! 1)) @
     List.map_filter (android_blood_pressure js) (records_or_empty (rs ! 2)) @
     map (android_steps js) (records_or_empty (rs ! 3)) @
     map (android_exercise js) (records_or_empty (rs ! 4))"
  by (simp add: android_normalize_def Let_def push_each_eq push_some_eq)

lemma android_types:
  "android_glucose js g = Some s \<Longrightarrow> type s = blood_glucose"
  "android_heart_rate js g = Some s \<Longrightarrow> type s = heart_rate"
  "android_blood_pressure js g = Some s \<Longrightarrow> type s = blood_pressure"
  "type (android_steps js g) = steps"
  "type (android_exercise js g) = exercise_minutes"
  by (auto simp: android_glucose_def android_heart_rate_def android_blood_pressure_def
      android_steps_def android_exercise_def Let_def split: if_splits)

lemma android_normalize_no_ecg: "s \<in> set (android_normalize js rs) \<Longrightarrow> type s \<noteq> ecg"
  by (auto simp: android_normalize_eq List.map_filter_def android_types)

lemma android_reads_example:
  "android_category_reads health_connect_example day_filter =
     map Inr [Some \<lparr>records = Some [android_glucose_mmol]\<rparr>, None,
              Some \<lparr>records = Some [android_bp_no_diastolic]\<rparr>,
              Some \<lparr>records = Some [android_steps_90s]\<rparr>,
              Some \<lparr>records = None\<rparr>]"
  by (simp add: android_category_reads_def health_connect_example_def)

lemma android_bp_no_diastolic_value:
  "android_blood_pressure plain_engine android_bp_no_diastolic = None"
  by (simp add: android_blood_pressure_def android_bp_no_diastolic_def field_def)

lemma android_steps_90s_value:
  "android_steps plain_engine android_steps_90s =
     \<lparr>type = steps, timestamp = TimeValue 1704070800000, data = StepsData (Fin 75) (Fin 2)\<rparr>"
  by (simp add: android_steps_def android_steps_90s_def field_def rounded_minutes_def Let_def)

lemma readLast24h_android_example:
  "readLast24h plain_engine android_example day_window =
     (android_category_calls day_filter,
      Inr \<lparr>samples = android_example_samples, unavailable = None\<rparr>)"
  by (simp add: readLast24h_def readLast24h_android_def android_example_def day_window_iso
      day_filter_def [symmetric] android_reads_example Promise_all_resolved
      android_normalize_eq records_or_empty_def or_empty_def List.map_filter_simps
      android_glucose_mmol_value android_bp_no_diastolic_value android_steps_90s_value
      android_example_samples_def)

lemma android_reads_steps_no_end:
  "android_category_reads health_connect_steps_no_end day_filter =
     map Inr [Some \<lparr>records = Some []\<rparr>, Some \<lparr>records = Some []\<rparr>,
              Some \<lparr>records = Some []\<rparr>, Some \<lparr>records = Some [android_steps_no_end]\<rparr>,
              Some \<lparr>records = Some []\<rparr>]"
  by (simp add: android_category_reads_def health_connect_steps_no_end_def)

lemma android_steps_no_end_value:
  "android_steps plain_engine android_steps_no_end =
     \<lparr>type = steps, timestamp = TimeValue 1704070800000, data = StepsData NaN NaN\<rparr>"
  by (simp add: android_steps_def android_steps_no_end_def field_def rounded_minutes_def
      Let_def)

text \<open>
  C7 on Android, at a steps record without an \<^verbatim>\<open>endTime\<close>: \<^verbatim>\<open>new Date(undefined)\<close> is an
  Invalid Date, the difference of the times is \<^verbatim>\<open>NaN\<close> and \<^verbatim>\<open>Math.max(1, NaN)\<close> is \<^verbatim>\<open>NaN\<close>,
  so the clamp lets it through: the sample has \<^verbatim>\<open>interval_minutes\<close> and \<^verbatim>\<open>spm\<close> \<^verbatim>\<open>NaN\<close>,
  where \<^verbatim>\<open>interval_minutes\<close> is to be at least 1.
\<close>

theorem android_steps_no_end_time_nan:
  "field android_steps_no_end ''endTime'' = JUndefined \<and>
   readLast24h plain_engine android_steps_incomplete day_window =
     (android_category_calls day_filter,
      Inr \<lparr>samples = [\<lparr>type = steps, timestamp = TimeValue 1704070800000,
                        data = StepsData NaN NaN\<rparr>],
           unavailable = None\<rparr>)"
proof -
  have "field android_steps_no_end ''endTime'' = JUndefined"
    by (simp add: android_steps_no_end_def field_def)
  moreover have "readLast24h plain_engine android_steps_incomplete day_window =
     (android_category_calls day_filter,
      Inr \<lparr>samples = [\<lparr>type = steps, timestamp = TimeValue 1704070800000,
                        data = StepsData NaN NaN\<rparr>],
           unavailable = None\<rparr>)"
    by (simp add: readLast24h_def readLast24h_android_def android_steps_incomplete_def
        day_window_iso day_filter_def [symmetric] android_reads_steps_no_end
        Promise_all_resolved android_normalize_eq records_or_empty_def or_empty_def
        List.map_filter_simps android_steps_no_end_value)
  ultimately show ?thesis by blast
qed

text \<open>
  C10. On Android a read that returns samples returns none of type \<^verbatim>\<open>ecg\<close>, whatever
  the vendor answers, and the five reads it has issued are those of glucose, heart rate,
  blood pressure, steps and exercise sessions.
\<close>

theorem android_no_ecg:
  assumes "OS pf = android" and "readLast24h js pf window = (calls, Inr r)"
  shows "(\<forall>s \<in> set (samples r). type s \<noteq> ecg) \<and>
         (\<exists>f. calls = [ReadRecords ''BloodGlucose'' f, ReadRecords ''HeartRate'' f,
                       ReadRecords ''BloodPressure'' f, ReadRecords ''Steps'' f,
                       ReadRecords ''ExerciseSession'' f])"
  using assms
  by (auto simp: readLast24h_def readLast24h_android_def Let_def android_category_calls_def
      android_normalize_no_ecg split: sum.splits)

theorem android_no_ecg_witness:
  "readLast24h plain_engine android_example day_window =
     (android_category_calls day_filter,
      Inr \<lparr>samples = android_example_samples, unavailable = None\<rparr>) \<and>
   type (android_example_samples ! 0) \<noteq> ecg \<and> type (android_example_samples ! 1) \<noteq> ecg \<and>
   (\<exists>f. android_category_calls day_filter =
      [ReadRecords ''BloodGlucose'' f, ReadRecords ''HeartRate'' f,
       ReadRecords ''BloodPressure'' f, ReadRecords ''Steps'' f,
       ReadRecords ''ExerciseSession'' f])"
proof -
  have os: "OS android_example = android" by (simp add: android_example_def)
  from android_no_ecg [OF os readLast24h_android_example]
  have all: "\<forall>s \<in> set android_example_samples. type s \<noteq> ecg"
    and calls: "\<exists>f. android_category_calls day_filter =
      [ReadRecords ''BloodGlucose'' f, ReadRecords ''HeartRate'' f,
       ReadRecords ''BloodPressure'' f, ReadRecords ''Steps'' f,
       ReadRecords ''ExerciseSession'' f]"
    by simp_all
  have "android_example_samples ! 0 \<in> set android_example_samples"
    and "android_example_samples ! 1 \<in> set android_example_samples"
    by (simp_all add: android_example_samples_def)
  with all have "type (android_example_samples ! 0) \<noteq> ecg"
    and "type (android_example_samples ! 1) \<noteq> ecg" by blast+
  with calls readLast24h_android_example show ?thesis by blast
qed

lemma ios_reads_bp_incomplete:
  "ios_category_reads healthkit_bp_incomplete day_opts =
     map Inr [Some [], Some [], Some [ios_bp_no_diastolic], Some [], Some [], None]"
  by (simp add: ios_category_reads_def healthkit_bp_incomplete_def p_def)

lemma ios_bp_no_diastolic_value:
  "ios_blood_pressure plain_engine ios_bp_no_diastolic =
     \<lparr>type = blood_pressure, timestamp = TimeValue 1704070800000,
      data = BloodPressureData (Fin 120) NaN\<rparr>"
  by (simp add: ios_blood_pressure_def ios_bp_no_diastolic_def field_def)

text \<open>
  C6 on iOS, at a record without a diastolic value: the loop has no guard and pushes a
  sample whose \<^verbatim>\<open>diastolic_mmhg\<close> is \<^verbatim>\<open>Number(undefined)\<close>, that is \<^verbatim>\<open>NaN\<close>; one record in,
  one sample out. The Android loop drops such a record (\<open>android_blood_pressure_count\<close>).
\<close>

theorem ios_blood_pressure_incomplete_emitted:
  "field ios_bp_no_diastolic ''bloodPressureDiastolicValue'' = JUndefined \<and>
   readLast24h plain_engine ios_bp_incomplete day_window =
     (ios_category_calls day_opts,
      Inr \<lparr>samples = [\<lparr>type = blood_pressure, timestamp = TimeValue 1704070800000,
                        data = BloodPressureData (Fin 120) NaN\<rparr>],
           unavailable = None\<rparr>)"
proof -
  have "field ios_bp_no_diastolic ''bloodPressureDiastolicValue'' = JUndefined"
    by (simp add: ios_bp_no_diastolic_def field_def)
  moreover have "readLast24h plain_engine ios_bp_incomplete day_window =
     (ios_category_calls day_opts,
      Inr \<lparr>samples = [\<lparr>type = blood_pressure, timestamp = TimeValue 1704070800000,
                        data = BloodPressureData (Fin 120) NaN\<rparr>],
           unavailable = None\<rparr>)"
    by (simp add: readLast24h_def readLast24h_ios_def ios_bp_incomplete_def day_window_iso
        day_opts_def [symmetric] ios_reads_bp_incomplete Promise_all_resolved
        ios_normalize_eq or_empty_def ios_bp_no_diastolic_value)
  ultimately show ?thesis by blast
qed









section \<open>Properties of \<^verbatim>\<open>requestPermissions\<close>\<close>












end
